theory Spec2Isabelle
  imports Complex_Main "HOL-Library.Multiset"
begin

section \<open>Long main-thread tasks: selection and attribution\<close>

text \<open>
  The development follows \<^verbatim>\<open>lighthouse-core/audits/long-tasks.js\<close>. The file under
  study holds two revisions of the audit. The current one (class \<^verbatim>\<open>LongTasks\<close>, first half
  of the file) filters, sorts and truncates, and calls the helpers
  \<^verbatim>\<open>getJavaScriptURLs\<close> and \<^verbatim>\<open>getAttributableURLForTask\<close> through \<^verbatim>\<open>BootupTime\<close>. The
  earlier one (second half of the file, and again the \<^verbatim>\<open>MainThreadTasks\<close> audit) sorts first
  and filters afterwards, and carries the bodies of both helpers as static methods; the
  helpers are embedded from there.
\<close>

subsection \<open>Data model\<close>

text \<open>
  A JavaScript number is modelled as a real: the code only compares durations with a
  constant, takes the sign of a difference of two durations and copies numbers, and on
  finite doubles each of these agrees with the same operation on the reals. \<^verbatim>\<open>NaN\<close> and
  the infinities are outside the model.
\<close>

type_synonym task_ref = nat

record task_group =
  label :: string

record trace_event =
  name :: string

text \<open>
  \<^verbatim>\<open>LH.Artifacts.TaskNode\<close>, restricted to the fields the audit reads. \<open>parent\<close> is a
  reference to the enclosing task, \<open>None\<close> standing for \<^verbatim>\<open>undefined\<close>; \<open>unbounded\<close> is
  declared \<^verbatim>\<open>boolean\<close>.
\<close>

record task =
  duration :: real
  unbounded :: bool
  parent :: "task_ref option"
  attributableURLs :: "string list"
  group :: task_group
  startTime :: real
  selfTime :: real
  event :: trace_event

datatype resource_type = Script | Document | Stylesheet | Image | Other

record network_request =
  resourceType :: resource_type
  url :: string

subsection \<open>Known script URLs\<close>

text \<open>
  \<^verbatim>\<open>getJavaScriptURLs(records)\<close>: the loop adds the URL of every script record to a
  fresh \<^verbatim>\<open>Set\<close>.
\<close>

definition getJavaScriptURLs :: "network_request list \<Rightarrow> string set" where
  "getJavaScriptURLs records =
     fold (\<lambda>record urls. if resourceType record = Script then insert (url record) urls else urls)
       records {}"

subsection \<open>Attribution\<close>

definition BROWSER_TASK_NAMES_SET :: "string set" where
  "BROWSER_TASK_NAMES_SET = {''CpuProfiler::StartProfiling''}"

definition BROWSER_GC_TASK_NAMES_SET :: "string set" where
  "BROWSER_GC_TASK_NAMES_SET = {''V8.GCCompactor'', ''MajorGC'', ''MinorGC''}"

text \<open>
  A value that is a string or \<^verbatim>\<open>undefined\<close> is a \<open>string option\<close>. Such a value is
  truthy when it is a non-empty string; \<^verbatim>\<open>a || b\<close> is \<open>a\<close> when \<open>a\<close> is truthy and \<open>b\<close>
  otherwise.
\<close>

fun truthy :: "string option \<Rightarrow> bool" where
  "truthy None = False"
| "truthy (Some s) = (s \<noteq> [])"

definition js_or :: "string option \<Rightarrow> string option \<Rightarrow> string option" where
  "js_or a b = (if truthy a then a else b)"

text \<open>\<^verbatim>\<open>xs[0]\<close>: the first element, \<^verbatim>\<open>undefined\<close> on an empty array.\<close>

fun first_entry :: "'a list \<Rightarrow> 'a option" where
  "first_entry [] = None"
| "first_entry (x # xs) = Some x"

text \<open>The event-name classification of the inner \<^verbatim>\<open>if\<close> chain.\<close>

definition classify_event :: "string \<Rightarrow> string" where
  "classify_event n =
     (if n \<in> BROWSER_TASK_NAMES_SET then ''Browser''
      else if n \<in> BROWSER_GC_TASK_NAMES_SET then ''Browser GC''
      else ''Unattributable'')"

text \<open>
  \<^verbatim>\<open>getAttributableURLForTask(task, jsURLs)\<close>. \<^verbatim>\<open>Array.prototype.find\<close> is
  \<^const>\<open>List.find\<close>, with \<open>None\<close> for \<^verbatim>\<open>undefined\<close>. After the guard the variable holds a
  string on both branches.
\<close>

definition getAttributableURLForTask :: "task \<Rightarrow> string set \<Rightarrow> string" where
  "getAttributableURLForTask t jsURLs =
     (let jsURL = List.find (\<lambda>u. u \<in> jsURLs) (attributableURLs t);
          fallbackURL = first_entry (attributableURLs t);
          attributableURL = js_or jsURL fallbackURL
      in if \<not> truthy attributableURL \<or> attributableURL = Some ''about:blank''
         then classify_event (name (event t))
         else (case attributableURL of Some u \<Rightarrow> u | None \<Rightarrow> classify_event (name (event t))))"

subsection \<open>Selection\<close>

text \<open>
  The filter callback of the current revision,
  \<^verbatim>\<open>t => t.duration >= 50 && !t.unbounded && !t.parent\<close>, and the one of the earlier
  revision, \<^verbatim>\<open>t => t.duration >= 50 && t.unbounded === false && !t.parent\<close>. A parent
  reference is an object and therefore truthy, so \<^verbatim>\<open>!t.parent\<close> holds exactly when the
  field is \<^verbatim>\<open>undefined\<close>.
\<close>

definition long_task_filter :: "task \<Rightarrow> bool" where
  "long_task_filter t \<longleftrightarrow> duration t \<ge> 50 \<and> \<not> unbounded t \<and> parent t = None"

definition long_task_filter_strict :: "task \<Rightarrow> bool" where
  "long_task_filter_strict t \<longleftrightarrow> duration t \<ge> 50 \<and> unbounded t = False \<and> parent t = None"

text \<open>The comparator \<^verbatim>\<open>(a, b) => b.duration - a.duration\<close>.\<close>

definition by_duration_desc :: "task \<Rightarrow> task \<Rightarrow> real" where
  "by_duration_desc a b = duration b - duration a"

text \<open>
  \<^verbatim>\<open>Array.prototype.sort(compareFn)\<close>. ECMAScript (2019 and later) requires the sort to be
  stable: \<open>a\<close> is placed before \<open>b\<close> when \<open>compareFn a b < 0\<close>, after it when
  \<open>compareFn a b > 0\<close>, and elements that compare equal keep their order. For a comparator
  that is a consistent ordering this fixes the result, so the algorithm is immaterial;
  the model is the stable insertion sort.
\<close>

fun insert_sorted :: "('a \<Rightarrow> 'a \<Rightarrow> real) \<Rightarrow> 'a \<Rightarrow> 'a list \<Rightarrow> 'a list" where
  "insert_sorted c x [] = [x]"
| "insert_sorted c x (y # ys) = (if c x y \<le> 0 then x # y # ys else y # insert_sorted c x ys)"

definition array_sort :: "('a \<Rightarrow> 'a \<Rightarrow> real) \<Rightarrow> 'a list \<Rightarrow> 'a list" where
  "array_sort c xs = foldr (insert_sorted c) xs []"

text \<open>\<^verbatim>\<open>Array.prototype.slice(begin, end)\<close> for \<open>0 \<le> begin \<le> end\<close>.\<close>

definition array_slice :: "nat \<Rightarrow> nat \<Rightarrow> 'a list \<Rightarrow> 'a list" where
  "array_slice b e xs = take (e - b) (drop b xs)"

text \<open>
  The selection of the current revision: copy, filter, sort, slice. The copy
  \<^verbatim>\<open>[...tasks]\<close> is the identity on values. The sort is a parameter so that a property can
  be stated for every sort an engine may supply; \<open>longtasks\<close> is the selection with the
  sort of the model.
\<close>

definition longtasks_with ::
    "((task \<Rightarrow> task \<Rightarrow> real) \<Rightarrow> task list \<Rightarrow> task list) \<Rightarrow> task list \<Rightarrow> task list" where
  "longtasks_with sort_impl tasks =
     array_slice 0 20 (sort_impl by_duration_desc (filter long_task_filter tasks))"

definition longtasks :: "task list \<Rightarrow> task list" where
  "longtasks tasks = longtasks_with array_sort tasks"

text \<open>The selection of the earlier revision: copy, sort, filter, slice.\<close>

definition longtasks_sort_first :: "task list \<Rightarrow> task list" where
  "longtasks_sort_first tasks =
     array_slice 0 20 (filter long_task_filter_strict (array_sort by_duration_desc tasks))"

subsection \<open>Report assembly\<close>

record row =
  row_url :: string
  row_group :: string
  row_start :: real
  row_self :: real
  row_duration :: real

text \<open>The callback of \<^verbatim>\<open>longtasks.map\<close>.\<close>

definition make_row :: "string set \<Rightarrow> task \<Rightarrow> row" where
  "make_row jsURLs t =
     \<lparr> row_url = getAttributableURLForTask t jsURLs,
       row_group = label (group t),
       row_start = startTime t,
       row_self = selfTime t,
       row_duration = duration t \<rparr>"

text \<open>
  The message template \<^verbatim>\<open>UIStrings.displayValue\<close>, an ICU plural over \<^verbatim>\<open>itemCount\<close> with
  the cases \<^verbatim>\<open>=1 {1 long task found}\<close> and \<^verbatim>\<open>other {# long tasks found}\<close>; \<open>Hash\<close> is the
  placeholder \<^verbatim>\<open>#\<close>.
\<close>

datatype icu_part = Lit string | Hash

record icu_plural =
  argument :: string
  exact_cases :: "(nat \<times> icu_part list) list"
  other_case :: "icu_part list"

definition UIStrings_displayValue :: icu_plural where
  "UIStrings_displayValue =
     \<lparr> argument = ''itemCount'',
       exact_cases = [(1, [Lit ''1 long task found''])],
       other_case = [Hash, Lit '' long tasks found''] \<rparr>"

record icu_message =
  template :: icu_plural
  args :: "(string \<times> nat) list"

text \<open>
  Modelled from the spec: \<open>str_fn\<close> is \<^verbatim>\<open>str_\<close> (made by \<^verbatim>\<open>i18n.createMessageInstanceIdFn\<close> in
  \<^verbatim>\<open>lib/i18n/i18n.js\<close>, a module outside the audit's own file). It pairs the template
  with the values to interpolate; the text is produced later by the formatter.
\<close>

definition str_fn :: "icu_plural \<Rightarrow> (string \<times> nat) list \<Rightarrow> icu_message" where
  "str_fn tmpl vs = \<lparr> template = tmpl, args = vs \<rparr>"

text \<open>Decimal digits of a natural number.\<close>

definition digit_char :: "nat \<Rightarrow> char" where
  "digit_char d = ''0123456789'' ! d"

function string_of_nat :: "nat \<Rightarrow> string" where
  "string_of_nat n =
     (if n < 10 then [digit_char n] else string_of_nat (n div 10) @ [digit_char (n mod 10)])"
  by pat_completeness auto
termination
  by (relation "measure id") auto

declare string_of_nat.simps [simp del]

text \<open>
  Modelled from the spec: the formatter of the i18n library (\<^verbatim>\<open>lib/i18n/i18n.js\<close>, outside
  the audit's own file), which renders a message instance. By the ICU plural rules an exact case
  \<^verbatim>\<open>=n\<close> is taken when the argument equals \<open>n\<close> and \<^verbatim>\<open>other\<close> is taken otherwise, and
  \<^verbatim>\<open>#\<close> is replaced by the argument in decimal. The result is \<open>None\<close> when the message
  instance does not supply the argument.
\<close>

fun render_part :: "nat \<Rightarrow> icu_part \<Rightarrow> string" where
  "render_part n (Lit s) = s"
| "render_part n Hash = string_of_nat n"

definition formatMessage :: "icu_message \<Rightarrow> string option" where
  "formatMessage m =
     (case map_of (args m) (argument (template m)) of
        None \<Rightarrow> None
      | Some n \<Rightarrow>
          Some (concat (map (render_part n)
            (case map_of (exact_cases (template m)) n of
               Some parts \<Rightarrow> parts
             | None \<Rightarrow> other_case (template m)))))"

record table_details =
  items :: "row list"

text \<open>
  Modelled from the spec: \<^verbatim>\<open>Audit.makeTableDetails(headings, results)\<close> (\<^verbatim>\<open>audit.js\<close>, not
  in the audit's own file) hands the assembled rows on unmodified and in order. The
  column headings are presentation and are left out.
\<close>

definition makeTableDetails :: "row list \<Rightarrow> table_details" where
  "makeTableDetails results = \<lparr> items = results \<rparr>"

record audit_product =
  score :: real
  details :: table_details
  displayValue :: "icu_message option"

text \<open>
  \<^verbatim>\<open>LongTasks.audit\<close>, current revision. The two awaited requests are external; their
  results, the task list and the network records, are the arguments of the model.
\<close>

definition audit_with ::
    "((task \<Rightarrow> task \<Rightarrow> real) \<Rightarrow> task list \<Rightarrow> task list) \<Rightarrow>
      task list \<Rightarrow> network_request list \<Rightarrow> audit_product" where
  "audit_with sort_impl tasks networkRecords =
     (let jsURLs = getJavaScriptURLs networkRecords;
          selected = longtasks_with sort_impl tasks;
          results = map (make_row jsURLs) selected;
          tableDetails = makeTableDetails results;
          shown = (if length results > 0
                   then Some (str_fn UIStrings_displayValue [(''itemCount'', length results)])
                   else None)
      in \<lparr> score = 1, details = tableDetails, displayValue = shown \<rparr>)"

definition audit :: "task list \<Rightarrow> network_request list \<Rightarrow> audit_product" where
  "audit tasks networkRecords = audit_with array_sort tasks networkRecords"

subsection \<open>The attribution precedence as the specification words it\<close>

text \<open>
  The precedence read literally: the first entry that is a known script URL; otherwise
  the first entry; when there is no candidate or the candidate is \<^verbatim>\<open>about:blank\<close>, the
  classification by event name.
\<close>

definition spec_attribution :: "task \<Rightarrow> string set \<Rightarrow> string" where
  "spec_attribution t jsURLs =
     (let candidate =
            (case List.find (\<lambda>u. u \<in> jsURLs) (attributableURLs t) of
               Some u \<Rightarrow> Some u
             | None \<Rightarrow> first_entry (attributableURLs t))
      in case candidate of
           None \<Rightarrow> classify_event (name (event t))
         | Some u \<Rightarrow> if u = ''about:blank'' then classify_event (name (event t)) else u)"

text \<open>
  The same precedence with the empty string treated as the code treats it: an empty
  script entry gives way to the first entry, and an empty candidate is classified by
  event name.
\<close>

definition amended_attribution :: "task \<Rightarrow> string set \<Rightarrow> string" where
  "amended_attribution t jsURLs =
     (let candidate =
            (case List.find (\<lambda>u. u \<in> jsURLs) (attributableURLs t) of
               Some u \<Rightarrow> if u \<noteq> [] then Some u else first_entry (attributableURLs t)
             | None \<Rightarrow> first_entry (attributableURLs t))
      in case candidate of
           None \<Rightarrow> classify_event (name (event t))
         | Some u \<Rightarrow>
             if u = [] \<or> u = ''about:blank'' then classify_event (name (event t)) else u)"

subsection \<open>The contract of a conforming sort\<close>

text \<open>
  What ECMAScript promises of \<^verbatim>\<open>sort\<close> for a consistent comparator: the result is a
  rearrangement of the array, no element is placed before one it must follow, and
  elements that compare equal keep their order.
\<close>

definition es_sort_contract :: "('a \<Rightarrow> 'a \<Rightarrow> real) \<Rightarrow> 'a list \<Rightarrow> 'a list \<Rightarrow> bool" where
  "es_sort_contract c xs ys \<longleftrightarrow>
     mset ys = mset xs \<and>
     sorted_wrt (\<lambda>a b. c a b \<le> 0) ys \<and>
     (\<forall>x \<in> set xs. filter (\<lambda>y. c x y = 0) ys = filter (\<lambda>y. c x y = 0) xs)"

subsection \<open>The same steps over an explicit store\<close>

text \<open>
  To speak about mutation, arrays and task objects live in a store. Task objects and
  arrays are addressed by their index; an array holds references to task objects, so a
  copy of an array shares the objects. \<^verbatim>\<open>[...tasks]\<close>, \<^verbatim>\<open>filter\<close> and \<^verbatim>\<open>slice\<close> allocate a
  new array; \<^verbatim>\<open>sort\<close> rearranges the array it is called on, in place, and returns it. No
  statement of the audit assigns to a field of a task or calls a mutating method of the
  set of script URLs.
\<close>

type_synonym addr = nat

record heap =
  objects :: "task list"
  arrays :: "task_ref list list"
  url_sets :: "string set list"

definition array_alloc :: "heap \<Rightarrow> task_ref list \<Rightarrow> heap \<times> addr" where
  "array_alloc h xs = (h\<lparr>arrays := arrays h @ [xs]\<rparr>, length (arrays h))"

definition array_spread_h :: "heap \<Rightarrow> addr \<Rightarrow> heap \<times> addr" where
  "array_spread_h h a = array_alloc h (arrays h ! a)"

definition array_filter_h :: "(task \<Rightarrow> bool) \<Rightarrow> heap \<Rightarrow> addr \<Rightarrow> heap \<times> addr" where
  "array_filter_h p h a = array_alloc h (filter (\<lambda>r. p (objects h ! r)) (arrays h ! a))"

definition array_sort_h :: "(task \<Rightarrow> task \<Rightarrow> real) \<Rightarrow> heap \<Rightarrow> addr \<Rightarrow> heap \<times> addr" where
  "array_sort_h c h a =
     (h\<lparr>arrays := (arrays h)
          [a := array_sort (\<lambda>x y. c (objects h ! x) (objects h ! y)) (arrays h ! a)]\<rparr>, a)"

definition array_slice_h :: "nat \<Rightarrow> nat \<Rightarrow> heap \<Rightarrow> addr \<Rightarrow> heap \<times> addr" where
  "array_slice_h b e h a = array_alloc h (array_slice b e (arrays h ! a))"

text \<open>The selection chain of the current revision, statement by statement.\<close>

definition select_h :: "heap \<Rightarrow> addr \<Rightarrow> heap \<times> addr" where
  "select_h h tasks =
     (let (h1, copy) = array_spread_h h tasks;
          (h2, kept) = array_filter_h long_task_filter h1 copy;
          (h3, ordered) = array_sort_h by_duration_desc h2 kept
      in array_slice_h 0 20 h3 ordered)"

text \<open>The attribution of one task: it reads the task and the set and writes nothing.\<close>

definition getAttributableURLForTask_h :: "heap \<Rightarrow> task_ref \<Rightarrow> addr \<Rightarrow> heap \<times> string" where
  "getAttributableURLForTask_h h t jsURLs =
     (h, getAttributableURLForTask (objects h ! t) (url_sets h ! jsURLs))"

text \<open>The \<^verbatim>\<open>map\<close> over the selected tasks; each row is a fresh object, returned by value.\<close>

fun assemble_h :: "heap \<Rightarrow> task_ref list \<Rightarrow> addr \<Rightarrow> heap \<times> row list" where
  "assemble_h h [] jsURLs = (h, [])"
| "assemble_h h (r # rs) jsURLs =
     (let (h1, u) = getAttributableURLForTask_h h r jsURLs;
          t = objects h1 ! r;
          (h2, rest) = assemble_h h1 rs jsURLs
      in (h2, \<lparr> row_url = u, row_group = label (group t), row_start = startTime t,
                row_self = selfTime t, row_duration = duration t \<rparr> # rest))"

definition run_h :: "heap \<Rightarrow> addr \<Rightarrow> addr \<Rightarrow> heap \<times> row list" where
  "run_h h tasks jsURLs =
     (let (h1, selected) = select_h h tasks
      in assemble_h h1 (arrays h1 ! selected) jsURLs)"

subsection \<open>A second conforming sort\<close>

text \<open>
  An engine is free in its choice of algorithm. This one inserts from the left and
  places an element behind those it compares equal to; it serves as a second engine in
  the examples.
\<close>

fun insert_last :: "('a \<Rightarrow> 'a \<Rightarrow> real) \<Rightarrow> 'a \<Rightarrow> 'a list \<Rightarrow> 'a list" where
  "insert_last c x [] = [x]"
| "insert_last c x (y # ys) = (if c x y < 0 then x # y # ys else y # insert_last c x ys)"

definition array_sort_left :: "('a \<Rightarrow> 'a \<Rightarrow> real) \<Rightarrow> 'a list \<Rightarrow> 'a list" where
  "array_sort_left c xs = fold (insert_last c) xs []"

subsection \<open>Example inputs\<close>

text \<open>A top-level, bounded task of 200 ms without candidate URLs, and variations of it.\<close>

definition sample_task :: task where
  "sample_task =
     \<lparr> duration = 200, unbounded = False, parent = None, attributableURLs = [],
       group = \<lparr> label = ''other'' \<rparr>, startTime = 1000, selfTime = 200,
       event = \<lparr> name = ''RunTask'' \<rparr> \<rparr>"

definition with_duration :: "real \<Rightarrow> task" where
  "with_duration d = sample_task\<lparr>duration := d\<rparr>"

text \<open>
  A short task, a child task, an unbounded task and three long tasks, two of which have
  the same duration.
\<close>

definition mixed_tasks :: "task list" where
  "mixed_tasks =
     [with_duration 30, sample_task\<lparr>parent := Some 0\<rparr>, with_duration 50,
      sample_task\<lparr>unbounded := True\<rparr>, with_duration 100,
      (with_duration 50)\<lparr>startTime := 7\<rparr>]"

text \<open>Thirty-five tasks of 40 to 74 ms, of which twenty-five are long.\<close>

definition many_tasks :: "task list" where
  "many_tasks = map (\<lambda>n. with_duration (real n)) [40..<75]"

definition sample_records :: "network_request list" where
  "sample_records =
     [\<lparr> resourceType = Document, url = ''https://example.com/'' \<rparr>,
      \<lparr> resourceType = Script, url = ''https://example.com/app.js'' \<rparr>]"

definition script_task :: task where
  "script_task =
     sample_task\<lparr>attributableURLs :=
       [''https://example.com/'', ''https://example.com/app.js'']\<rparr>"

definition empty_url_task :: task where
  "empty_url_task = sample_task\<lparr>attributableURLs := [[]]\<rparr>"

definition gc_task :: task where
  "gc_task = sample_task\<lparr>attributableURLs := [''about:blank''], event := \<lparr> name = ''MajorGC'' \<rparr>\<rparr>"

definition sample_heap :: heap where
  "sample_heap =
     \<lparr> objects = [with_duration 30, with_duration 50, with_duration 100],
       arrays = [[0, 1, 2]],
       url_sets = [{''https://example.com/app.js''}] \<rparr>"

section \<open>Properties\<close>

subsection \<open>Evaluation on the examples\<close>

lemmas selection_eval = longtasks_def longtasks_with_def array_sort_def array_slice_def
  long_task_filter_def by_duration_desc_def mixed_tasks_def sample_task_def with_duration_def

lemmas attribution_eval = getAttributableURLForTask_def js_or_def classify_event_def
  BROWSER_TASK_NAMES_SET_def BROWSER_GC_TASK_NAMES_SET_def getJavaScriptURLs_def
  sample_records_def script_task_def empty_url_task_def gc_task_def sample_task_def

lemmas heap_eval = run_h_def select_h_def array_spread_h_def array_filter_h_def
  array_sort_h_def array_slice_h_def array_alloc_def getAttributableURLForTask_h_def
  sample_heap_def

lemma longtasks_mixed:
  "longtasks mixed_tasks =
     [with_duration 100, with_duration 50, (with_duration 50)\<lparr>startTime := 7\<rparr>]"
  by (simp add: selection_eval)

lemma string_of_nat_3: "string_of_nat 3 = ''3''"
  by (simp add: string_of_nat.simps [of 3] digit_char_def)

subsection \<open>The sort of the model is the library's stable sort\<close>

lemma insert_sorted_insort_key:
  "insert_sorted by_duration_desc x ys = insort_key (\<lambda>t. - duration t) x ys"
  by (induction ys) (simp_all add: by_duration_desc_def)

lemma array_sort_sort_key:
  "array_sort by_duration_desc xs = sort_key (\<lambda>t. - duration t) xs"
  by (induction xs) (simp_all add: array_sort_def insert_sorted_insort_key)

lemma array_slice_take: "array_slice 0 n xs = take n xs"
  by (simp add: array_slice_def)

lemma longtasks_eq:
  "longtasks tasks = take 20 (sort_key (\<lambda>t. - duration t) (filter long_task_filter tasks))"
  by (simp add: longtasks_def longtasks_with_def array_slice_take array_sort_sort_key)

lemma filter_strict_eq: "long_task_filter_strict = long_task_filter"
  by (rule ext) (simp add: long_task_filter_strict_def long_task_filter_def)

lemma insert_sorted_map:
  "insert_sorted c (f x) (map f ys) = map f (insert_sorted (\<lambda>a b. c (f a) (f b)) x ys)"
  by (induction ys) simp_all

lemma array_sort_map:
  "array_sort c (map f xs) = map f (array_sort (\<lambda>a b. c (f a) (f b)) xs)"
  by (induction xs) (simp_all add: array_sort_def insert_sorted_map)

subsection \<open>The selected tasks\<close>

lemma sorted_desc_longtasks:
  "sorted_wrt (\<lambda>a b. duration b \<le> duration a) (longtasks tasks)"
proof -
  have "sorted (map (\<lambda>t. - duration t)
          (sort_key (\<lambda>t. - duration t) (filter long_task_filter tasks)))"
    by (rule sorted_sort_key)
  then have "sorted (map (\<lambda>t. - duration t) (longtasks tasks))"
    unfolding longtasks_eq take_map [symmetric] by (rule sorted_wrt_take)
  then show ?thesis by (simp add: sorted_map)
qed

lemma length_longtasks:
  "length (longtasks tasks) = min 20 (length (filter long_task_filter tasks))"
  by (simp add: longtasks_eq min.commute)

lemma set_longtasks: "set (longtasks tasks) \<subseteq> {t \<in> set tasks. long_task_filter t}"
proof -
  have "set (longtasks tasks)
      \<subseteq> set (sort_key (\<lambda>t. - duration t) (filter long_task_filter tasks))"
    unfolding longtasks_eq by (rule set_take_subset)
  then show ?thesis by auto
qed

lemma longtasks_split:
  "\<exists>rest. mset (filter long_task_filter tasks) = mset (longtasks tasks) + mset rest \<and>
     (\<forall>t \<in> set rest. \<forall>s \<in> set (longtasks tasks). duration t \<le> duration s)"
proof -
  let ?s = "sort_key (\<lambda>t. - duration t) (filter long_task_filter tasks)"
  have "sorted (map (\<lambda>t. - duration t) (take 20 ?s @ drop 20 ?s))"
    by (simp only: append_take_drop_id sorted_sort_key)
  then have "\<forall>s \<in> set (take 20 ?s). \<forall>t \<in> set (drop 20 ?s). duration t \<le> duration s"
    unfolding map_append sorted_append by auto
  moreover have "mset (filter long_task_filter tasks) = mset (take 20 ?s) + mset (drop 20 ?s)"
    by (metis append_take_drop_id mset_append mset_sort)
  ultimately show ?thesis unfolding longtasks_eq by blast
qed

lemma longtasks_largest:
  "mset (longtasks tasks) \<subseteq># mset (filter long_task_filter tasks) \<and>
   (\<forall>t \<in># mset (filter long_task_filter tasks) - mset (longtasks tasks).
      \<forall>s \<in> set (longtasks tasks). duration t \<le> duration s)"
proof -
  obtain rest where
    "mset (filter long_task_filter tasks) = mset (longtasks tasks) + mset rest"
    "\<forall>t \<in> set rest. \<forall>s \<in> set (longtasks tasks). duration t \<le> duration s"
    using longtasks_split by blast
  then show ?thesis by simp
qed

subsection \<open>The assembled product\<close>

lemma audit_items:
  "items (details (audit tasks recs)) = map (make_row (getJavaScriptURLs recs)) (longtasks tasks)"
  by (simp add: audit_def audit_with_def Let_def makeTableDetails_def longtasks_def)

lemma row_duration_make_row: "row_duration (make_row js t) = duration t"
  by (simp add: make_row_def)

lemma audit_displayValue:
  "displayValue (audit tasks recs) =
     (if 0 < length (items (details (audit tasks recs)))
      then Some (str_fn UIStrings_displayValue
                   [(''itemCount'', length (items (details (audit tasks recs))))])
      else None)"
  by (simp add: audit_def audit_with_def Let_def makeTableDetails_def)

lemma format_displayValue:
  "formatMessage (str_fn UIStrings_displayValue [(''itemCount'', n)]) =
     Some (if n = 1 then ''1 long task found'' else string_of_nat n @ '' long tasks found'')"
  by (simp add: formatMessage_def str_fn_def UIStrings_displayValue_def)

subsection \<open>Attribution\<close>

lemma find_in_set: "List.find P xs = Some u \<Longrightarrow> u \<in> set xs"
  by (induction xs) (auto split: if_splits)

lemma first_entry_in_set: "first_entry xs = Some u \<Longrightarrow> u \<in> set xs"
  by (cases xs) auto

lemma attribution_amended: "getAttributableURLForTask t jsURLs = amended_attribution t jsURLs"
  by (auto simp: getAttributableURLForTask_def amended_attribution_def js_or_def Let_def
      split: option.splits list.splits)

lemma attribution_spec:
  assumes "[] \<notin> set (attributableURLs t)"
  shows "getAttributableURLForTask t jsURLs = spec_attribution t jsURLs"
proof -
  have "amended_attribution t jsURLs = spec_attribution t jsURLs"
    using assms
    by (auto simp: amended_attribution_def spec_attribution_def Let_def
        split: option.splits dest: find_in_set first_entry_in_set)
  then show ?thesis by (simp add: attribution_amended)
qed

subsection \<open>A conforming sort has one possible result\<close>

lemma compare_zero_iff:
  "(\<lambda>y. by_duration_desc x y = 0) = (\<lambda>y. - duration x = - duration y)"
  by (auto simp: by_duration_desc_def fun_eq_iff)

lemma es_sort_unique:
  assumes "es_sort_contract by_duration_desc xs ys"
  shows "ys = array_sort by_duration_desc xs"
proof -
  have m: "mset ys = mset xs"
    and s: "sorted_wrt (\<lambda>a b. by_duration_desc a b \<le> 0) ys"
    and st: "\<forall>x \<in> set xs. filter (\<lambda>y. by_duration_desc x y = 0) ys
                            = filter (\<lambda>y. by_duration_desc x y = 0) xs"
    using assms by (simp_all add: es_sort_contract_def)
  have "set ys = set xs" using m by (rule mset_eq_setD)
  then have "\<And>k. k \<in> set ys \<Longrightarrow>
      filter (\<lambda>x. - duration k = - duration x) ys = filter (\<lambda>x. - duration k = - duration x) xs"
    using st unfolding compare_zero_iff by simp
  moreover have "sorted (map (\<lambda>t. - duration t) ys)"
    using s by (simp add: sorted_map by_duration_desc_def)
  ultimately have "sort_key (\<lambda>t. - duration t) xs = ys"
    using m by (intro properties_for_sort_key)
  then show ?thesis by (simp add: array_sort_sort_key)
qed

lemma es_sort_array_sort:
  "es_sort_contract by_duration_desc xs (array_sort by_duration_desc xs)"
proof -
  have "sorted (map (\<lambda>t. - duration t) (sort_key (\<lambda>t. - duration t) xs))"
    by (rule sorted_sort_key)
  then have "sorted_wrt (\<lambda>a b. by_duration_desc a b \<le> 0) (sort_key (\<lambda>t. - duration t) xs)"
    by (simp add: sorted_map by_duration_desc_def)
  moreover have "filter (\<lambda>y. by_duration_desc x y = 0) (sort_key (\<lambda>t. - duration t) xs)
      = filter (\<lambda>y. by_duration_desc x y = 0) xs" for x
  proof -
    have "(\<lambda>y. by_duration_desc x y = 0) = (\<lambda>y. - duration y = - duration x)"
      by (auto simp: by_duration_desc_def fun_eq_iff)
    then show ?thesis by (simp only: sort_key_stable)
  qed
  ultimately show ?thesis
    by (simp add: es_sort_contract_def array_sort_sort_key)
qed

subsection \<open>The steps over the store\<close>

lemma assemble_h_frame: "fst (assemble_h h rs s) = h"
  by (induction rs) (simp_all add: getAttributableURLForTask_h_def Let_def split_beta)

lemma assemble_h_rows:
  "snd (assemble_h h rs s) = map (\<lambda>r. make_row (url_sets h ! s) (objects h ! r)) rs"
  by (induction rs)
    (simp_all add: getAttributableURLForTask_h_def make_row_def Let_def split_beta)

lemma select_h_objects: "objects (fst (select_h h a)) = objects h"
  by (simp add: select_h_def array_spread_h_def array_filter_h_def array_sort_h_def
      array_slice_h_def array_alloc_def Let_def)

lemma select_h_url_sets: "url_sets (fst (select_h h a)) = url_sets h"
  by (simp add: select_h_def array_spread_h_def array_filter_h_def array_sort_h_def
      array_slice_h_def array_alloc_def Let_def)

lemma select_h_arrays:
  "arrays (fst (select_h h a)) =
     arrays h @ [arrays h ! a,
       array_sort (\<lambda>x y. by_duration_desc (objects h ! x) (objects h ! y))
         (filter (\<lambda>r. long_task_filter (objects h ! r)) (arrays h ! a)),
       array_slice 0 20 (array_sort (\<lambda>x y. by_duration_desc (objects h ! x) (objects h ! y))
         (filter (\<lambda>r. long_task_filter (objects h ! r)) (arrays h ! a)))]"
  by (simp add: select_h_def array_spread_h_def array_filter_h_def array_sort_h_def
      array_slice_h_def array_alloc_def Let_def nth_append list_update_append)

lemma select_h_result: "snd (select_h h a) = length (arrays h) + 2"
  by (simp add: select_h_def array_spread_h_def array_filter_h_def array_sort_h_def
      array_slice_h_def array_alloc_def Let_def)

lemma select_h_selected:
  "map ((!) (objects h)) (arrays (fst (select_h h a)) ! snd (select_h h a)) =
     longtasks (map ((!) (objects h)) (arrays h ! a))"
  by (simp add: select_h_arrays select_h_result nth_append longtasks_def longtasks_with_def
      array_slice_def take_map array_sort_map filter_map comp_def)

section \<open>The claims\<close>

text \<open>
  Claim C1. A task contributes an output row only if it is top-level (no parent), its
  unbounded flag is false and its duration is at least 50: the rows are the images of
  the selected tasks, every selected task is a task of the input that meets the three
  conditions, a task that fails one of them is never selected whatever its other
  fields, and every row carries a duration of at least 50.
\<close>

theorem filter_conditions:
  "items (details (audit tasks recs)) =
     map (make_row (getJavaScriptURLs recs)) (longtasks tasks) \<and>
   (\<forall>t \<in> set (longtasks tasks).
      t \<in> set tasks \<and> parent t = None \<and> unbounded t = False \<and> 50 \<le> duration t) \<and>
   (\<forall>t. parent t \<noteq> None \<or> unbounded t \<or> duration t < 50 \<longrightarrow> t \<notin> set (longtasks tasks)) \<and>
   (\<forall>r \<in> set (items (details (audit tasks recs))). 50 \<le> row_duration r)"
  using set_longtasks [of tasks]
  by (auto simp: audit_items long_task_filter_def row_duration_make_row)

text \<open>
  On the mixed example the unbounded task, the child task and the short task are in the
  input and are not selected; the three long tasks are.
\<close>

theorem filter_conditions_witness:
  "longtasks mixed_tasks =
     [with_duration 100, with_duration 50, (with_duration 50)\<lparr>startTime := 7\<rparr>] \<and>
   sample_task\<lparr>unbounded := True\<rparr> \<in> set mixed_tasks \<and>
   sample_task\<lparr>unbounded := True\<rparr> \<notin> set (longtasks mixed_tasks) \<and>
   sample_task\<lparr>parent := Some 0\<rparr> \<in> set mixed_tasks \<and>
   sample_task\<lparr>parent := Some 0\<rparr> \<notin> set (longtasks mixed_tasks) \<and>
   with_duration 30 \<in> set mixed_tasks \<and>
   with_duration 30 \<notin> set (longtasks mixed_tasks)"
proof -
  note inst = filter_conditions [of mixed_tasks "[]"]
  have "unbounded (sample_task\<lparr>unbounded := True\<rparr>)" by simp
  with inst have a: "sample_task\<lparr>unbounded := True\<rparr> \<notin> set (longtasks mixed_tasks)"
    by blast
  have "parent (sample_task\<lparr>parent := Some 0\<rparr>) \<noteq> None" by simp
  with inst have b: "sample_task\<lparr>parent := Some 0\<rparr> \<notin> set (longtasks mixed_tasks)"
    by blast
  have "duration (with_duration 30) < 50" by (simp add: with_duration_def)
  with inst have c: "with_duration 30 \<notin> set (longtasks mixed_tasks)" by blast
  show ?thesis using a b c longtasks_mixed by (simp add: mixed_tasks_def)
qed

text \<open>
  Claim C2, as amended. The attribution resolves one string with this precedence: the
  first entry of \<open>attributableURLs\<close> that is a known script URL, provided that entry is
  not the empty string; otherwise the first entry; and when there is no candidate, or
  the candidate is the empty string or \<^verbatim>\<open>about:blank\<close>, the label \<^verbatim>\<open>Browser\<close>,
  \<^verbatim>\<open>Browser GC\<close> or \<^verbatim>\<open>Unattributable\<close> by event name. For a task none of whose
  candidate URLs is empty this is the precedence as the specification words it.
\<close>

theorem attribution_precedence:
  "getAttributableURLForTask t jsURLs = amended_attribution t jsURLs \<and>
   ([] \<notin> set (attributableURLs t) \<longrightarrow>
      getAttributableURLForTask t jsURLs = spec_attribution t jsURLs)"
  using attribution_amended [of t jsURLs] attribution_spec [of t jsURLs] by blast

text \<open>
  A task with a page URL and a script URL resolves to the script URL; with no script
  known, to the first entry; a garbage-collection task on \<^verbatim>\<open>about:blank\<close> resolves to
  \<^verbatim>\<open>Browser GC\<close>.
\<close>

theorem attribution_precedence_witness:
  "getAttributableURLForTask script_task (getJavaScriptURLs sample_records) =
     ''https://example.com/app.js'' \<and>
   spec_attribution script_task (getJavaScriptURLs sample_records) =
     ''https://example.com/app.js'' \<and>
   spec_attribution script_task {} = ''https://example.com/'' \<and>
   spec_attribution gc_task {} = ''Browser GC'' \<and>
   spec_attribution sample_task {} = ''Unattributable''"
proof -
  have e: "[] \<notin> set (attributableURLs script_task)" "[] \<notin> set (attributableURLs gc_task)"
    "[] \<notin> set (attributableURLs sample_task)"
    by (simp_all add: script_task_def gc_task_def sample_task_def)
  have v: "getAttributableURLForTask script_task (getJavaScriptURLs sample_records) =
     ''https://example.com/app.js''"
    "getAttributableURLForTask script_task {} = ''https://example.com/''"
    "getAttributableURLForTask gc_task {} = ''Browser GC''"
    "getAttributableURLForTask sample_task {} = ''Unattributable''"
    by (simp_all add: attribution_eval)
  have "spec_attribution script_task (getJavaScriptURLs sample_records) =
      getAttributableURLForTask script_task (getJavaScriptURLs sample_records)"
    using e(1) attribution_precedence [of script_task "getJavaScriptURLs sample_records"]
    by metis
  moreover have "spec_attribution script_task {} = getAttributableURLForTask script_task {}"
    using e(1) attribution_precedence [of script_task "{}"] by metis
  moreover have "spec_attribution gc_task {} = getAttributableURLForTask gc_task {}"
    using e(2) attribution_precedence [of gc_task "{}"] by metis
  moreover have "spec_attribution sample_task {} = getAttributableURLForTask sample_task {}"
    using e(3) attribution_precedence [of sample_task "{}"] by metis
  ultimately show ?thesis by (simp only: v simp_thms)
qed

text \<open>
  The precedence as worded fails on a task whose only candidate URL is the empty string:
  worded literally it resolves to that empty string, the code resolves to
  \<^verbatim>\<open>Unattributable\<close>.
\<close>

theorem attribution_precedence_counterexample:
  "getAttributableURLForTask empty_url_task {} = ''Unattributable'' \<and>
   spec_attribution empty_url_task {} = [] \<and>
   getAttributableURLForTask empty_url_task {} \<noteq> spec_attribution empty_url_task {}"
  by (simp add: attribution_eval spec_attribution_def)

text \<open>
  Claim C3. The output has at most 20 rows, its durations are non-increasing, and when
  more than 20 tasks pass the filter exactly 20 rows are returned; the rows are the
  images of selected tasks which are taken from the tasks that pass the filter, and no
  task that passes the filter and is left out is longer than a selected one.
\<close>

theorem cap_and_order:
  "length (items (details (audit tasks recs))) \<le> 20 \<and>
   sorted_wrt (\<lambda>a b. row_duration b \<le> row_duration a) (items (details (audit tasks recs))) \<and>
   (20 < length (filter long_task_filter tasks) \<longrightarrow>
      length (items (details (audit tasks recs))) = 20) \<and>
   items (details (audit tasks recs)) =
     map (make_row (getJavaScriptURLs recs)) (longtasks tasks) \<and>
   mset (longtasks tasks) \<subseteq># mset (filter long_task_filter tasks) \<and>
   (\<forall>t \<in># mset (filter long_task_filter tasks) - mset (longtasks tasks).
      \<forall>s \<in> set (longtasks tasks). duration t \<le> duration s)"
proof -
  have "sorted_wrt (\<lambda>a b. row_duration b \<le> row_duration a)
          (map (make_row (getJavaScriptURLs recs)) (longtasks tasks))"
    using sorted_desc_longtasks [of tasks]
    by (simp add: sorted_wrt_map row_duration_make_row)
  then show ?thesis
    using longtasks_largest [of tasks] by (simp add: audit_items length_longtasks)
qed

text \<open>Of twenty-five long tasks of 50 to 74 ms the twenty of 55 to 74 ms are reported.\<close>

theorem cap_and_order_witness:
  "length (filter long_task_filter many_tasks) = 25 \<and>
   length (items (details (audit many_tasks sample_records))) = 20 \<and>
   map row_duration (items (details (audit many_tasks sample_records))) =
     [74, 73, 72, 71, 70, 69, 68, 67, 66, 65, 64, 63, 62, 61, 60, 59, 58, 57, 56, 55]"
proof -
  have n: "length (filter long_task_filter many_tasks) = 25"
    by (simp add: selection_eval many_tasks_def upt_rec_numeral)
  then have "20 < length (filter long_task_filter many_tasks)" by simp
  with cap_and_order [of many_tasks sample_records]
  have l: "length (items (details (audit many_tasks sample_records))) = 20"
    and m: "items (details (audit many_tasks sample_records)) =
      map (make_row (getJavaScriptURLs sample_records)) (longtasks many_tasks)"
    by blast+
  have "map duration (longtasks many_tasks) =
     [74, 73, 72, 71, 70, 69, 68, 67, 66, 65, 64, 63, 62, 61, 60, 59, 58, 57, 56, 55]"
    by (simp add: selection_eval many_tasks_def upt_rec_numeral)
  then have "map row_duration (items (details (audit many_tasks sample_records))) =
     [74, 73, 72, 71, 70, 69, 68, 67, 66, 65, 64, 63, 62, 61, 60, 59, 58, 57, 56, 55]"
    unfolding m by (simp add: comp_def make_row_def)
  with n l show ?thesis by simp
qed

text \<open>
  Claim C4. Filtering, then sorting by descending duration, then taking the first 20
  selects the same sequence of tasks as sorting, then filtering, then taking the first
  20. The \<open>unbounded\<close> field is a boolean by its type, on which \<^verbatim>\<open>!t.unbounded\<close> and
  \<^verbatim>\<open>t.unbounded === false\<close> agree.
\<close>

theorem filter_sort_commute: "longtasks_sort_first tasks = longtasks tasks"
  by (simp add: longtasks_sort_first_def longtasks_eq array_slice_take array_sort_sort_key
      filter_strict_eq filter_sort)

text \<open>Both orders select the same three tasks of the mixed example, ties in input order.\<close>

theorem filter_sort_commute_witness:
  "longtasks_sort_first mixed_tasks =
     [with_duration 100, with_duration 50, (with_duration 50)\<lparr>startTime := 7\<rparr>] \<and>
   longtasks mixed_tasks =
     [with_duration 100, with_duration 50, (with_duration 50)\<lparr>startTime := 7\<rparr>]"
  using filter_sort_commute [of mixed_tasks] longtasks_mixed by simp

text \<open>
  Claim C5. The display value is absent exactly when there is no output row; when
  there are \<open>n > 0\<close> rows it is a message that renders as \<^verbatim>\<open>1 long task found\<close> for
  \<open>n = 1\<close> and as \<open>n\<close> in decimal followed by \<^verbatim>\<open> long tasks found\<close> for \<open>n > 1\<close>.
\<close>

theorem display_value:
  "(displayValue (audit tasks recs) = None \<longleftrightarrow>
      length (items (details (audit tasks recs))) = 0) \<and>
   (\<forall>n. length (items (details (audit tasks recs))) = n \<and> 0 < n \<longrightarrow>
      (\<exists>m. displayValue (audit tasks recs) = Some m \<and>
           formatMessage m =
             Some (if n = 1 then ''1 long task found''
                   else string_of_nat n @ '' long tasks found'')))"
  by (simp add: audit_displayValue format_displayValue)

text \<open>No task, one long task and the three long tasks of the mixed example.\<close>

theorem display_value_witness:
  "displayValue (audit [] sample_records) = None \<and>
   (\<exists>m. displayValue (audit [sample_task] sample_records) = Some m \<and>
        formatMessage m = Some ''1 long task found'') \<and>
   (\<exists>m. displayValue (audit mixed_tasks sample_records) = Some m \<and>
        formatMessage m = Some ''3 long tasks found'')"
proof -
  have "length (items (details (audit [] sample_records))) = 0"
    by (simp add: audit_items selection_eval)
  with display_value [of "[]" sample_records]
  have a: "displayValue (audit [] sample_records) = None" by blast
  have "length (items (details (audit [sample_task] sample_records))) = 1"
    by (simp add: audit_items selection_eval)
  with display_value [of "[sample_task]" sample_records]
  have b: "\<exists>m. displayValue (audit [sample_task] sample_records) = Some m \<and>
        formatMessage m = Some ''1 long task found''" by simp
  have "length (items (details (audit mixed_tasks sample_records))) = 3"
    by (simp add: audit_items longtasks_mixed)
  with display_value [of mixed_tasks sample_records]
  have c: "\<exists>m. displayValue (audit mixed_tasks sample_records) = Some m \<and>
        formatMessage m = Some ''3 long tasks found''" by (simp add: string_of_nat_3)
  from a b c show ?thesis by simp
qed

text \<open>
  Claim C6. There is one row per selected task, in order, and the row of a selected
  task has as \<open>url\<close> the attribution of that task against the known script URLs, as
  \<open>group\<close> the label of the task's group, as \<open>start\<close> its \<open>startTime\<close>, as \<open>self\<close> its
  \<open>selfTime\<close> and as \<open>duration\<close> its \<open>duration\<close>.
\<close>

theorem row_fields:
  "length (items (details (audit tasks recs))) = length (longtasks tasks) \<and>
   (\<forall>i < length (longtasks tasks).
      row_url (items (details (audit tasks recs)) ! i) =
        getAttributableURLForTask (longtasks tasks ! i) (getJavaScriptURLs recs) \<and>
      row_group (items (details (audit tasks recs)) ! i) = label (group (longtasks tasks ! i)) \<and>
      row_start (items (details (audit tasks recs)) ! i) = startTime (longtasks tasks ! i) \<and>
      row_self (items (details (audit tasks recs)) ! i) = selfTime (longtasks tasks ! i) \<and>
      row_duration (items (details (audit tasks recs)) ! i) = duration (longtasks tasks ! i))"
  by (simp add: audit_items make_row_def)

text \<open>The one row of a task that ran a known script.\<close>

theorem row_fields_witness:
  "longtasks [script_task] = [script_task] \<and>
   items (details (audit [script_task] sample_records)) =
     [\<lparr> row_url = ''https://example.com/app.js'', row_group = ''other'', row_start = 1000,
        row_self = 200, row_duration = 200 \<rparr>]"
proof -
  have s: "longtasks [script_task] = [script_task]"
    by (simp add: selection_eval script_task_def)
  then have "0 < length (longtasks [script_task])" by simp
  with row_fields [of "[script_task]" sample_records] s
  have "length (items (details (audit [script_task] sample_records))) = 1"
    and "row_url (items (details (audit [script_task] sample_records)) ! 0) =
           getAttributableURLForTask script_task (getJavaScriptURLs sample_records)"
    and "row_group (items (details (audit [script_task] sample_records)) ! 0) =
           label (group script_task)"
    and "row_start (items (details (audit [script_task] sample_records)) ! 0) =
           startTime script_task"
    and "row_self (items (details (audit [script_task] sample_records)) ! 0) =
           selfTime script_task"
    and "row_duration (items (details (audit [script_task] sample_records)) ! 0) =
           duration script_task"
    by auto
  then have "items (details (audit [script_task] sample_records)) =
     [\<lparr> row_url = getAttributableURLForTask script_task (getJavaScriptURLs sample_records),
        row_group = label (group script_task), row_start = startTime script_task,
        row_self = selfTime script_task, row_duration = duration script_task \<rparr>]"
    by (cases "items (details (audit [script_task] sample_records))") auto
  then show ?thesis using s by (simp add: attribution_eval)
qed

text \<open>
  Claim C7. Two runs on the same task list and the same set of known script URLs return
  the same product, rows and order included. The runs may differ in all that the inputs
  leave open: the sort each engine supplies, as long as it keeps the contract of a
  conforming sort on the filtered tasks, and the network records behind the same set of
  script URLs. Either run returns what the model with its own sort returns.
\<close>

theorem audit_deterministic:
  assumes "es_sort_contract by_duration_desc (filter long_task_filter tasks)
             (sortA by_duration_desc (filter long_task_filter tasks))"
      and "es_sort_contract by_duration_desc (filter long_task_filter tasks)
             (sortB by_duration_desc (filter long_task_filter tasks))"
      and "getJavaScriptURLs recsA = getJavaScriptURLs recsB"
  shows "audit_with sortA tasks recsA = audit_with sortB tasks recsB \<and>
         audit_with sortA tasks recsA = audit tasks recsA"
proof -
  have "sortA by_duration_desc (filter long_task_filter tasks)
        = array_sort by_duration_desc (filter long_task_filter tasks)"
    using assms(1) by (rule es_sort_unique)
  moreover have "sortB by_duration_desc (filter long_task_filter tasks)
        = array_sort by_duration_desc (filter long_task_filter tasks)"
    using assms(2) by (rule es_sort_unique)
  ultimately show ?thesis
    using assms(3) by (simp add: audit_def audit_with_def longtasks_with_def)
qed

text \<open>
  Two engines with different sorts, and two lists of network records with the same
  script URLs, on the mixed example with its tie.
\<close>

theorem audit_deterministic_witness:
  "audit_with array_sort mixed_tasks sample_records =
     audit_with array_sort_left mixed_tasks (rev sample_records @ sample_records) \<and>
   map row_start (items (details (audit_with array_sort_left mixed_tasks
     (rev sample_records @ sample_records)))) = [1000, 1000, 7]"
proof -
  have a: "es_sort_contract by_duration_desc (filter long_task_filter mixed_tasks)
             (array_sort by_duration_desc (filter long_task_filter mixed_tasks))"
    by (rule es_sort_array_sort)
  have b: "es_sort_contract by_duration_desc (filter long_task_filter mixed_tasks)
             (array_sort_left by_duration_desc (filter long_task_filter mixed_tasks))"
    by (simp add: es_sort_contract_def selection_eval array_sort_left_def)
  have c: "getJavaScriptURLs sample_records =
             getJavaScriptURLs (rev sample_records @ sample_records)"
    by (simp add: getJavaScriptURLs_def sample_records_def)
  note inst = audit_deterministic [where sortA = array_sort and sortB = array_sort_left, OF a b c]
  have "map row_start (items (details (audit mixed_tasks sample_records))) = [1000, 1000, 7]"
    by (simp add: audit_items longtasks_mixed make_row_def with_duration_def sample_task_def)
  with inst show ?thesis by metis
qed

text \<open>
  Claim C8. Selection and attribution do not mutate their inputs. Run over a store in
  which the task array, the task objects it refers to and the set of script URLs exist,
  the steps leave every task object, every set and every array that existed before the
  call as it was, the input array among them: the sort rearranges an array allocated
  during the call. The rows returned are those of the audit on the tasks the input array
  refers to.
\<close>

theorem steps_do_not_mutate:
  assumes "tasks < length (arrays h)"
      and "jsURLs < length (url_sets h)"
      and "\<forall>r \<in> set (arrays h ! tasks). r < length (objects h)"
      and "run_h h tasks jsURLs = (h', rows)"
  shows "objects h' = objects h \<and> url_sets h' = url_sets h \<and>
         length (arrays h) \<le> length (arrays h') \<and>
         (\<forall>a < length (arrays h). arrays h' ! a = arrays h ! a) \<and>
         arrays h' ! tasks = arrays h ! tasks \<and>
         rows = map (make_row (url_sets h ! jsURLs))
                  (longtasks (map ((!) (objects h)) (arrays h ! tasks)))"
proof -
  have h': "h' = fst (select_h h tasks)"
    using assms(4) assemble_h_frame [of "fst (select_h h tasks)"]
    by (simp add: run_h_def split: prod.splits) (metis fst_conv)
  have rows: "rows = map (\<lambda>r. make_row (url_sets h' ! jsURLs) (objects h' ! r))
       (arrays h' ! snd (select_h h tasks))"
    using assms(4) assemble_h_rows [of "fst (select_h h tasks)"] unfolding h'
    by (simp add: run_h_def split: prod.splits) (metis snd_conv)
  have "rows = map (make_row (url_sets h ! jsURLs))
                  (map ((!) (objects h)) (arrays h' ! snd (select_h h tasks)))"
    unfolding rows by (simp add: h' select_h_objects select_h_url_sets)
  then have "rows = map (make_row (url_sets h ! jsURLs))
                  (longtasks (map ((!) (objects h)) (arrays h ! tasks)))"
    unfolding h' select_h_selected .
  then show ?thesis
    using assms(1) by (simp add: h' select_h_objects select_h_url_sets select_h_arrays nth_append)
qed

text \<open>
  On the sample store the input array at address 0 still reads \<open>[0, 1, 2]\<close> after the
  call; the copy, the filtered and sorted array and the slice were allocated behind it.
\<close>

theorem steps_do_not_mutate_witness:
  "arrays (fst (run_h sample_heap 0 0)) = [[0, 1, 2], [0, 1, 2], [2, 1], [2, 1]] \<and>
   arrays (fst (run_h sample_heap 0 0)) ! 0 = arrays sample_heap ! 0 \<and>
   objects (fst (run_h sample_heap 0 0)) = objects sample_heap \<and>
   url_sets (fst (run_h sample_heap 0 0)) = url_sets sample_heap \<and>
   map row_duration (snd (run_h sample_heap 0 0)) = [100, 50]"
proof -
  have a: "0 < length (arrays sample_heap)" "0 < length (url_sets sample_heap)"
    "\<forall>r \<in> set (arrays sample_heap ! 0). r < length (objects sample_heap)"
    by (simp_all add: sample_heap_def)
  have r: "run_h sample_heap 0 0 = (fst (run_h sample_heap 0 0), snd (run_h sample_heap 0 0))"
    by simp
  note inst = steps_do_not_mutate [OF a r]
  have "arrays (fst (run_h sample_heap 0 0)) = [[0, 1, 2], [0, 1, 2], [2, 1], [2, 1]]"
    by (simp add: heap_eval Let_def selection_eval split_beta assemble_h_frame)
  moreover have "map row_duration (snd (run_h sample_heap 0 0)) = [100, 50]"
    by (simp add: heap_eval Let_def selection_eval split_beta)
  ultimately show ?thesis using inst by simp
qed

text \<open>
  Claim C9. When the first entry of \<open>attributableURLs\<close> is the empty string and no entry
  is a known script URL, the attribution is not the empty string: it is the
  classification by event name, one of \<^verbatim>\<open>Browser\<close>, \<^verbatim>\<open>Browser GC\<close> and
  \<^verbatim>\<open>Unattributable\<close>.
\<close>

theorem empty_first_entry_falls_through:
  assumes "first_entry (attributableURLs t) = Some []"
      and "\<forall>u \<in> set (attributableURLs t). u \<notin> jsURLs"
  shows "getAttributableURLForTask t jsURLs = classify_event (name (event t)) \<and>
         getAttributableURLForTask t jsURLs \<noteq> [] \<and>
         getAttributableURLForTask t jsURLs \<in> {''Browser'', ''Browser GC'', ''Unattributable''}"
proof -
  have "List.find (\<lambda>u. u \<in> jsURLs) (attributableURLs t) = None"
    using assms(2) by (simp add: find_None_iff)
  then have "getAttributableURLForTask t jsURLs = classify_event (name (event t))"
    using assms(1) by (simp add: getAttributableURLForTask_def js_or_def)
  then show ?thesis by (simp add: classify_event_def)
qed

text \<open>The task whose only candidate URL is empty resolves to \<^verbatim>\<open>Unattributable\<close>.\<close>

theorem empty_first_entry_witness:
  "getAttributableURLForTask empty_url_task {''https://example.com/app.js''} =
     ''Unattributable''"
proof -
  have a: "first_entry (attributableURLs empty_url_task) = Some []"
    by (simp add: empty_url_task_def)
  have b: "\<forall>u \<in> set (attributableURLs empty_url_task). u \<notin> {''https://example.com/app.js''}"
    by (simp add: empty_url_task_def)
  from empty_first_entry_falls_through [OF a b] show ?thesis
    by (simp add: classify_event_def BROWSER_TASK_NAMES_SET_def BROWSER_GC_TASK_NAMES_SET_def
        empty_url_task_def sample_task_def)
qed

text \<open>
  Claim C10. The score of the returned product is 1 for every task list and every list
  of network records, the case of no long task included.
\<close>

theorem score_is_one: "score (audit tasks recs) = 1"
  by (simp add: audit_def audit_with_def Let_def)

text \<open>The score with no task at all and with the three long tasks of the mixed example.\<close>

theorem score_is_one_witness:
  "score (audit [] []) = 1 \<and> score (audit mixed_tasks sample_records) = 1"
  using score_is_one [of "[]" "[]"] score_is_one [of mixed_tasks sample_records] by simp

end
